theory Spec2Isabelle
  imports Complex_Main
begin

section \<open>Data model of the material (material.ts)\<close>

text \<open>
  The material engine of \<^verbatim>\<open>src/extensions/material-creator/material.ts\<close> is a
  class of the editor that extends the rendering library's \<^verbatim>\<open>PushMaterial\<close>. The
  library itself (babylonjs) is not part of the repository. Objects of the library are
  modelled as records holding the fields and getter results the source reads; a field whose
  source name starts with an underscore loses it (\<^verbatim>\<open>_renderId\<close> is \<open>renderId\<close>), and the
  property pairs that the \<^verbatim>\<open>expandToProperty\<close> decorator ties together
  (\<^verbatim>\<open>diffuseTexture\<close>/\<^verbatim>\<open>_diffuseTexture\<close> and so on) are one field. JavaScript
  numbers that the code only passes on are \<open>real\<close>; counters are \<open>nat\<close>; the light cap is
  an \<open>int\<close> because the source subtracts from it. An object reference that may be
  \<^verbatim>\<open>null\<close> or \<^verbatim>\<open>undefined\<close> is an \<open>option\<close>.
\<close>

type_synonym Matrix = "real list"

type_synonym Color3 = "real \<times> real \<times> real"

record BaseTexture =
  textureName :: string
  textureIsReady :: bool
  coordinatesIndex :: real
  level :: real
  getTextureMatrix :: Matrix

record Effect =
  effectName :: string
  effectDefines :: string
  effectIsReady :: bool

record Mesh =
  meshName :: string
  visibility :: real
  applyFog :: bool

record Scene =
  getRenderId :: nat
  texturesEnabled :: bool
  lightsEnabled :: bool
  sceneFogEnabled :: bool
  fogMode :: nat
  getTransformMatrix :: Matrix
  getViewMatrix :: Matrix

text \<open>
  \<^verbatim>\<open>MaterialDefines\<close> is the library's base class of a defines set. The source
  reads and writes its members \<^verbatim>\<open>isDirty\<close>, \<^verbatim>\<open>_areTexturesDirty\<close>,
  \<^verbatim>\<open>_needUVs\<close> and \<^verbatim>\<open>_needNormals\<close>; \<open>libraryDefines\<close> stands for the keys
  that the library's helpers add on their own. \<^verbatim>\<open>CustomMaterialDefines\<close> extends it
  with the fourteen members the source declares.
\<close>

record MaterialDefines =
  isDirty :: bool
  areTexturesDirty :: bool
  needUVs :: bool
  needNormals :: bool
  libraryDefines :: "(string \<times> bool) list"

record CustomMaterialDefines = MaterialDefines +
  DIFFUSE :: bool
  CLIPPLANE :: bool
  ALPHATEST :: bool
  DEPTHPREPASS :: bool
  POINTSIZE :: bool
  FOG :: bool
  NORMAL :: bool
  UV1 :: bool
  UV2 :: bool
  VERTEXCOLOR :: bool
  VERTEXALPHA :: bool
  NUM_BONE_INFLUENCERS :: nat
  BonesPerMesh :: nat
  INSTANCES :: bool

text \<open>
  An \<^verbatim>\<open>EffectFallbacks\<close> object is opaque to the material: it is modelled as the
  list of the calls made on it, oldest first.
\<close>

datatype FallbackCall =
    AddFallback nat string
  | AddCPUSkinningFallback nat Mesh

text \<open>
  The object literal handed to \<^verbatim>\<open>createEffect\<close>; each field is the source's key
  with the prefix \<open>opt\<close>. The two callbacks \<^verbatim>\<open>onCompiled\<close> and \<^verbatim>\<open>onError\<close>
  are passed on unchanged and are left out.
\<close>

record EffectCreationOptions =
  optAttributes :: "string list"
  optUniformsNames :: "string list"
  optUniformBuffersNames :: "string list"
  optSamplers :: "string list"
  optDefines :: string
  optFallbacks :: "FallbackCall list"
  indexParameters_maxSimultaneousLights :: int

text \<open>
  The calls the material makes into the library that write state or poll the readiness of
  an asynchronous resource, in the order they are made. Plain getters are not recorded.
\<close>

datatype LibraryCall =
    TextureIsReady BaseTexture
  | CallPrepareDefinesForMisc
  | CallPrepareDefinesForLights
  | CallPrepareDefinesForFrameBoundValues
  | CallPrepareDefinesForAttributes
  | CallMarkAsProcessed
  | ResetCachedMaterial
  | CreateEffect string EffectCreationOptions
  | EffectIsReady Effect
  | BindOnlyWorldMatrix Matrix
  | SetMatrix string Matrix
  | BindBonesParameters Mesh Effect
  | SetTexture string BaseTexture
  | SetFloat2 string real real
  | BindClipPlane Effect Scene
  | SetFloat string real
  | BindEyePosition Effect Scene
  | SetColor4 string Color3 real
  | BindLights Scene Mesh Effect CustomMaterialDefines int
  | BindFogParameters Scene Mesh Effect
  | AfterBind Mesh Effect
  | TextureDispose BaseTexture
  | SuperDispose "bool option"

record Material =
  name :: string
  diffuseTexture :: "BaseTexture option"
  diffuseColor :: Color3
  disableLighting :: bool
  maxSimultaneousLights :: int
  renderId :: "nat option"
  isFrozen :: bool
  wasPreviouslyReady :: bool
  checkReadyOnEveryCall :: bool
  alpha :: real
  pointsCloud :: bool
  pointSize :: real
  fogEnabled :: bool
  activeEffect :: "Effect option"

record SubMesh =
  materialDefines :: "CustomMaterialDefines option"
  effect :: "Effect option"

text \<open>
  The parts of the library the material calls, taken as parameters: the global switch
  \<^verbatim>\<open>StandardMaterial.DiffuseTextureEnabled\<close>, the state of a base
  \<^verbatim>\<open>MaterialDefines\<close> after its constructor and \<^verbatim>\<open>rebuild()\<close>, and the helpers,
  each with the arguments the source passes. A helper that is handed the fallbacks object
  returns the calls it makes on it. \<open>mustRebind\<close> is the base class's
  \<^verbatim>\<open>_mustRebind\<close>, \<open>PushMaterial_constructor\<close> the state the base constructor
  leaves, \<open>PushMaterial_dispose\<close> what the base class's \<^verbatim>\<open>dispose\<close> makes of the
  material and of a sub-mesh that uses it, given the flag it is handed, and
  \<open>SerializationHelper_Parse\<close> what the library's parser writes into the object its
  creation function returned.
\<close>

record Library =
  DiffuseTextureEnabled :: bool
  newMaterialDefines :: MaterialDefines
  PrepareDefinesForMisc ::
    "Mesh \<Rightarrow> Scene \<Rightarrow> bool \<Rightarrow> bool \<Rightarrow> bool \<Rightarrow> CustomMaterialDefines \<Rightarrow> CustomMaterialDefines"
  PrepareDefinesForLights ::
    "Scene \<Rightarrow> Mesh \<Rightarrow> CustomMaterialDefines \<Rightarrow> bool \<Rightarrow> int \<Rightarrow> bool \<Rightarrow> bool \<times> CustomMaterialDefines"
  PrepareDefinesForFrameBoundValues ::
    "Scene \<Rightarrow> CustomMaterialDefines \<Rightarrow> bool \<Rightarrow> CustomMaterialDefines"
  PrepareDefinesForAttributes ::
    "Mesh \<Rightarrow> CustomMaterialDefines \<Rightarrow> bool \<Rightarrow> bool \<Rightarrow> CustomMaterialDefines"
  markAsProcessed :: "CustomMaterialDefines \<Rightarrow> CustomMaterialDefines"
  HandleFallbacksForShadows ::
    "CustomMaterialDefines \<Rightarrow> FallbackCall list \<Rightarrow> int \<Rightarrow> FallbackCall list"
  PrepareAttributesForBones ::
    "string list \<Rightarrow> Mesh \<Rightarrow> CustomMaterialDefines \<Rightarrow> FallbackCall list
      \<Rightarrow> string list \<times> FallbackCall list"
  PrepareAttributesForInstances :: "string list \<Rightarrow> CustomMaterialDefines \<Rightarrow> string list"
  definesToString :: "CustomMaterialDefines \<Rightarrow> string"
  PrepareUniformsAndSamplersList ::
    "string list \<Rightarrow> string list \<Rightarrow> string list \<Rightarrow> CustomMaterialDefines \<Rightarrow> int
      \<Rightarrow> string list \<times> string list \<times> string list"
  createEffect :: "string \<Rightarrow> EffectCreationOptions \<Rightarrow> Effect"
  mustRebind :: "Scene \<Rightarrow> Effect \<Rightarrow> bool"
  FOGMODE_NONE :: nat
  PushMaterial_constructor :: "string \<Rightarrow> Scene \<Rightarrow> Material"
  PushMaterial_dispose :: "bool option \<Rightarrow> Material \<Rightarrow> SubMesh \<Rightarrow> Material \<times> SubMesh"
  SerializationHelper_Parse :: "Material \<Rightarrow> Material"

text \<open>
  What one call of a method works on: the material, the sub-mesh it is asked about, and
  the library calls made so far.
\<close>

record State =
  material :: Material
  subMesh :: SubMesh
  calls :: "LibraryCall list"

section \<open>isReadyForSubMesh\<close>

text \<open>
  \<^verbatim>\<open>new CustomMaterialDefines()\<close>: the base constructor, then the source's field
  initialisers.
\<close>

definition CustomMaterialDefines_new :: "Library \<Rightarrow> CustomMaterialDefines" where
  "CustomMaterialDefines_new lib =
     \<lparr> isDirty = isDirty (newMaterialDefines lib),
       areTexturesDirty = areTexturesDirty (newMaterialDefines lib),
       needUVs = needUVs (newMaterialDefines lib),
       needNormals = needNormals (newMaterialDefines lib),
       libraryDefines = libraryDefines (newMaterialDefines lib),
       DIFFUSE = False, CLIPPLANE = False, ALPHATEST = False, DEPTHPREPASS = False,
       POINTSIZE = False, FOG = False, NORMAL = False, UV1 = False, UV2 = False,
       VERTEXCOLOR = False, VERTEXALPHA = False, NUM_BONE_INFLUENCERS = 0,
       BonesPerMesh = 0, INSTANCES = False \<rparr>"

text \<open>Lines 105-109: the guard of a frozen material.\<close>

definition frozenReady :: "Material \<Rightarrow> SubMesh \<Rightarrow> bool" where
  "frozenReady m sm = (isFrozen m \<and> wasPreviouslyReady m \<and> effect sm \<noteq> None)"

text \<open>Lines 111-115: the sub-mesh's defines, created when the sub-mesh has none.\<close>

definition definesOf :: "Library \<Rightarrow> SubMesh \<Rightarrow> CustomMaterialDefines" where
  "definesOf lib sm =
     (case materialDefines sm of
        None \<Rightarrow> CustomMaterialDefines_new lib
      | Some d \<Rightarrow> d)"

text \<open>
  Lines 118-122: the guard of the render id. \<^verbatim>\<open>_renderId\<close> is declared without an
  initialiser, so it is \<^verbatim>\<open>undefined\<close> (\<open>None\<close>) until the first ready call, and
  \<^verbatim>\<open>===\<close> against a number is then false.
\<close>

definition sameFrameReady :: "Scene \<Rightarrow> Material \<Rightarrow> SubMesh \<Rightarrow> bool" where
  "sameFrameReady scene m sm =
     (\<not> checkReadyOnEveryCall m \<and> effect sm \<noteq> None \<and> renderId m = Some (getRenderId scene))"

text \<open>
  Lines 126-139, the textures domain. The result is whether the call goes on
  (\<open>False\<close> is the source's \<^verbatim>\<open>return false\<close>), the defines as they are left, and the
  library calls made.
\<close>

definition texturesDomain ::
  "Library \<Rightarrow> Scene \<Rightarrow> Material \<Rightarrow> CustomMaterialDefines
    \<Rightarrow> bool \<times> CustomMaterialDefines \<times> LibraryCall list" where
  "texturesDomain lib scene m d =
     (if areTexturesDirty d then
        (let d1 = d\<lparr>needUVs := False\<rparr> in
         if texturesEnabled scene then
           (case diffuseTexture m of
              None \<Rightarrow> (True, d1, [])
            | Some t \<Rightarrow>
                if DiffuseTextureEnabled lib then
                  (if \<not> textureIsReady t then (False, d1, [TextureIsReady t])
                   else (True, d1\<lparr>needUVs := True, DIFFUSE := True\<rparr>, [TextureIsReady t]))
                else (True, d1, []))
         else (True, d1, []))
      else (True, d, []))"

text \<open>
  Lines 141-151: the misc, lights, frame-bound and attributes domains. The optional
  \<^verbatim>\<open>useInstances\<close> is \<open>None\<close> when the caller leaves it out.
\<close>

definition prepareDefines ::
  "Library \<Rightarrow> Scene \<Rightarrow> Mesh \<Rightarrow> bool option \<Rightarrow> Material \<Rightarrow> CustomMaterialDefines
    \<Rightarrow> CustomMaterialDefines" where
  "prepareDefines lib scene mesh useInstances m d =
     (let d1 = PrepareDefinesForMisc lib mesh scene False (pointsCloud m) (fogEnabled m) d;
          (nn, d2) = PrepareDefinesForLights lib scene mesh d1 False
                       (maxSimultaneousLights m) (disableLighting m);
          d3 = d2\<lparr>needNormals := nn\<rparr>;
          d4 = PrepareDefinesForFrameBoundValues lib scene d3
                 (if useInstances = Some True then True else False)
      in PrepareDefinesForAttributes lib mesh d4 True True)"

definition prepareDefinesCalls :: "LibraryCall list" where
  "prepareDefinesCalls =
     [CallPrepareDefinesForMisc, CallPrepareDefinesForLights,
      CallPrepareDefinesForFrameBoundValues, CallPrepareDefinesForAttributes]"

text \<open>Lines 158-168: the fallbacks registered before the effect is requested.\<close>

definition buildFallbacks ::
  "Library \<Rightarrow> Mesh \<Rightarrow> Material \<Rightarrow> CustomMaterialDefines \<Rightarrow> FallbackCall list" where
  "buildFallbacks lib mesh m d =
     (let f0 = [];
          f1 = (if FOG d then f0 @ [AddFallback 1 ''FOG''] else f0);
          f2 = f1 @ HandleFallbacksForShadows lib d f1 (maxSimultaneousLights m);
          f3 = (if NUM_BONE_INFLUENCERS d > 0 then f2 @ [AddCPUSkinningFallback 0 mesh] else f2)
      in f3)"

text \<open>
  Lines 170-187: the attribute list. The kinds are the library's constants
  \<^verbatim>\<open>VertexBuffer.PositionKind\<close> and so on, kept as names.
\<close>

datatype VertexBufferKind = PositionKind | NormalKind | UVKind | UV2Kind | ColorKind

definition kindName :: "VertexBufferKind \<Rightarrow> string" where
  "kindName k =
     (case k of
        PositionKind \<Rightarrow> ''VertexBuffer.PositionKind''
      | NormalKind \<Rightarrow> ''VertexBuffer.NormalKind''
      | UVKind \<Rightarrow> ''VertexBuffer.UVKind''
      | UV2Kind \<Rightarrow> ''VertexBuffer.UV2Kind''
      | ColorKind \<Rightarrow> ''VertexBuffer.ColorKind'')"

definition buildAttribs :: "CustomMaterialDefines \<Rightarrow> string list" where
  "buildAttribs d =
     (let a0 = [kindName PositionKind];
          a1 = (if NORMAL d then a0 @ [kindName NormalKind] else a0);
          a2 = (if UV1 d then a1 @ [kindName UVKind] else a1);
          a3 = (if UV2 d then a2 @ [kindName UV2Kind] else a2);
          a4 = (if VERTEXCOLOR d then a3 @ [kindName ColorKind] else a3)
      in a4)"

text \<open>
  Lines 154-222, the branch taken when the defines are dirty: the defines are marked
  processed, the fallbacks, attributes, uniforms and samplers are collected, and the
  engine is asked for the effect. The result is the defines, the effect and the library
  calls made.
\<close>

definition compileEffect ::
  "Library \<Rightarrow> Mesh \<Rightarrow> Material \<Rightarrow> CustomMaterialDefines
    \<Rightarrow> CustomMaterialDefines \<times> Effect \<times> LibraryCall list" where
  "compileEffect lib mesh m d =
     (let d1 = markAsProcessed lib d;
          fb = buildFallbacks lib mesh m d1;
          attribs = buildAttribs d1;
          (attribs1, boneCalls) = PrepareAttributesForBones lib attribs mesh d1 fb;
          fb1 = fb @ boneCalls;
          attribs2 = PrepareAttributesForInstances lib attribs1 d1;
          shaderName = name m;
          join = definesToString lib d1;
          uniforms = [''world'', ''view'', ''viewProjection'', ''vEyePosition'', ''vLightsType'',
                      ''vDiffuseColor'', ''vFogInfos'', ''vFogColor'', ''pointSize'',
                      ''vDiffuseInfos'', ''mBones'', ''vClipPlane'', ''diffuseMatrix''];
          samplerNames = [''diffuseSampler''];
          uniformBuffers = [];
          (uniforms1, uniformBuffers1, samplerNames1) =
             PrepareUniformsAndSamplersList lib uniforms uniformBuffers samplerNames d1
               (maxSimultaneousLights m);
          opts = \<lparr> optAttributes = attribs2, optUniformsNames = uniforms1,
                   optUniformBuffersNames = uniformBuffers1, optSamplers = samplerNames1,
                   optDefines = join, optFallbacks = fb1,
                   indexParameters_maxSimultaneousLights = maxSimultaneousLights m - 1 \<rparr>
      in (d1, createEffect lib shaderName opts,
          [CallMarkAsProcessed, ResetCachedMaterial, CreateEffect shaderName opts]))"

text \<open>
  Lines 224-231: the final test of the effect, and the only place where the material
  records the render id and that it was ready.
\<close>

definition effectReadyCheck :: "Scene \<Rightarrow> State \<Rightarrow> bool \<times> State" where
  "effectReadyCheck scene st =
     (case effect (subMesh st) of
        None \<Rightarrow> (False, st)
      | Some e \<Rightarrow>
          if \<not> effectIsReady e then (False, st\<lparr>calls := calls st @ [EffectIsReady e]\<rparr>)
          else (True, st\<lparr>material := (material st)\<lparr>renderId := Some (getRenderId scene),
                                                     wasPreviouslyReady := True\<rparr>,
                          calls := calls st @ [EffectIsReady e]\<rparr>))"

text \<open>
  The whole method, lines 104-232. The defines object is shared with the sub-mesh, so
  every write to it is a write to the sub-mesh's defines, also on an early return;
  \<^verbatim>\<open>subMesh.setEffect(effect, defines)\<close> stores the effect beside them.
\<close>

definition isReadyForSubMesh ::
  "Library \<Rightarrow> Scene \<Rightarrow> Mesh \<Rightarrow> bool option \<Rightarrow> State \<Rightarrow> bool \<times> State" where
  "isReadyForSubMesh lib scene mesh useInstances st =
     (let m = material st; sm = subMesh st in
      if frozenReady m sm then (True, st)
      else
        (let d0 = definesOf lib sm;
             sm0 = sm\<lparr>materialDefines := Some d0\<rparr> in
         if sameFrameReady scene m sm0 then (True, st\<lparr>subMesh := sm0\<rparr>)
         else
           (case texturesDomain lib scene m d0 of
              (goOn, d1, cs1) \<Rightarrow>
                if \<not> goOn then
                  (False, st\<lparr>subMesh := sm0\<lparr>materialDefines := Some d1\<rparr>,
                              calls := calls st @ cs1\<rparr>)
                else
                  (let d2 = prepareDefines lib scene mesh useInstances m d1;
                       cs2 = cs1 @ prepareDefinesCalls in
                   if isDirty d2 then
                     (case compileEffect lib mesh m d2 of
                        (d3, e, cs3) \<Rightarrow>
                          effectReadyCheck scene
                            (st\<lparr>subMesh := \<lparr>materialDefines = Some d3, effect = Some e\<rparr>,
                                calls := calls st @ cs2 @ cs3\<rparr>))
                   else
                     effectReadyCheck scene
                       (st\<lparr>subMesh := sm0\<lparr>materialDefines := Some d2\<rparr>,
                           calls := calls st @ cs2\<rparr>)))))"

definition isCreateEffect :: "LibraryCall \<Rightarrow> bool" where
  "isCreateEffect c = (case c of CreateEffect n opts \<Rightarrow> True | _ \<Rightarrow> False)"

section \<open>bindForSubMesh\<close>

text \<open>
  Lines 234-291. Both early returns come before the first write; after them every call
  on the effect is recorded in the order of the source.
\<close>

definition bindForSubMesh :: "Library \<Rightarrow> Scene \<Rightarrow> Matrix \<Rightarrow> Mesh \<Rightarrow> State \<Rightarrow> State" where
  "bindForSubMesh lib scene world mesh st =
     (case materialDefines (subMesh st) of
        None \<Rightarrow> st
      | Some d \<Rightarrow>
          (case effect (subMesh st) of
             None \<Rightarrow> st
           | Some e \<Rightarrow>
               (let m = material st;
                    c1 = [BindOnlyWorldMatrix world,
                          SetMatrix ''viewProjection'' (getTransformMatrix scene),
                          BindBonesParameters mesh e];
                    c2 = (if mustRebind lib scene e then
                            (case diffuseTexture m of
                               None \<Rightarrow> []
                             | Some t \<Rightarrow>
                                 if DiffuseTextureEnabled lib then
                                   [SetTexture ''diffuseSampler'' t,
                                    SetFloat2 ''vDiffuseInfos'' (coordinatesIndex t) (level t),
                                    SetMatrix ''diffuseMatrix'' (getTextureMatrix t)]
                                 else [])
                            @ [BindClipPlane e scene]
                            @ (if pointsCloud m then [SetFloat ''pointSize'' (pointSize m)] else [])
                            @ [BindEyePosition e scene]
                          else []);
                    c3 = [SetColor4 ''vDiffuseColor'' (diffuseColor m) (alpha m * visibility mesh)];
                    c4 = (if lightsEnabled scene \<and> \<not> disableLighting m
                          then [BindLights scene mesh e d (maxSimultaneousLights m)] else []);
                    c5 = (if sceneFogEnabled scene \<and> applyFog mesh
                             \<and> fogMode scene \<noteq> FOGMODE_NONE lib
                          then [SetMatrix ''view'' (getViewMatrix scene)] else []);
                    c6 = [BindFogParameters scene mesh e, AfterBind mesh e]
                in st\<lparr>material := m\<lparr>activeEffect := Some e\<rparr>,
                      calls := calls st @ c1 @ c2 @ c3 @ c4 @ c5 @ c6\<rparr>)))"

text \<open>The calls a method added to the ones made before it.\<close>

definition newCalls :: "State \<Rightarrow> State \<Rightarrow> LibraryCall list" where
  "newCalls before after = drop (length (calls before)) (calls after)"

text \<open>The writes that the source puts under \<^verbatim>\<open>_mustRebind\<close>.\<close>

definition isRebindScoped :: "LibraryCall \<Rightarrow> bool" where
  "isRebindScoped c =
     (case c of
        SetTexture n t \<Rightarrow> True
      | SetFloat2 n x y \<Rightarrow> True
      | SetMatrix n mat \<Rightarrow> n = ''diffuseMatrix''
      | BindClipPlane e sc \<Rightarrow> True
      | SetFloat n x \<Rightarrow> True
      | BindEyePosition e sc \<Rightarrow> True
      | _ \<Rightarrow> False)"

section \<open>dispose\<close>





section \<open>The constructor and Parse\<close>

text \<open>
  Lines 84-89: \<^verbatim>\<open>this._customCode.constructor.call(this)\<close>. What this expression does
  is decided by JavaScript's property lookup, so the hook is modelled as the value it is
  at run time: \<^verbatim>\<open>null\<close>, \<^verbatim>\<open>undefined\<close>, or an object given by its own
  \<^verbatim>\<open>constructor\<close> property (if it has one) and by its prototype. Reading a property
  of \<^verbatim>\<open>null\<close> or \<^verbatim>\<open>undefined\<close> throws a TypeError. A property the object does not
  own is looked up in its prototype chain:
  \<^item> an object literal has \<^verbatim>\<open>Object.prototype\<close>, whose \<^verbatim>\<open>constructor\<close> is the
    function \<^verbatim>\<open>Object\<close>;
  \<^item> an instance of an ES2015 class has the class's prototype, whose
    \<^verbatim>\<open>constructor\<close> is the class;
  \<^item> an instance of a constructor function (also a class compiled to one) has that
    function's prototype, whose \<^verbatim>\<open>constructor\<close> is the function;
  \<^item> an object without a prototype (\<^verbatim>\<open>Object.create(null)\<close>) gives \<^verbatim>\<open>undefined\<close>.

  \<^verbatim>\<open>.call(this)\<close> on a function runs it with the material as \<^verbatim>\<open>this\<close>; on an
  ES2015 class it throws a TypeError, since a class cannot be called without
  \<^verbatim>\<open>new\<close>; on \<^verbatim>\<open>undefined\<close>, or on another value that is not a function, it
  throws a TypeError. A callback works on the material's fields and may itself throw.
\<close>

datatype JSError = TypeError | Thrown string

datatype Property =
    PUndefined
  | PNotCallable
  | PClass
  | PFunction "Material \<Rightarrow> JSError + Material"

datatype Prototype =
    ObjectPrototype
  | NullPrototype
  | ClassPrototype
  | FunctionPrototype "Material \<Rightarrow> JSError + Material"

datatype CustomMaterialCode =
    CodeNull
  | CodeUndefined
  | CodeObject "Property option" Prototype

record CustomMaterial =
  materialFields :: Material
  customCode :: CustomMaterialCode

text \<open>\<^verbatim>\<open>Object.call(this)\<close> returns a fresh object and leaves \<^verbatim>\<open>this\<close> alone.\<close>

definition Object_function :: "Material \<Rightarrow> JSError + Material" where
  "Object_function this = Inr this"

definition getConstructorProperty :: "Property option \<Rightarrow> Prototype \<Rightarrow> Property" where
  "getConstructorProperty own proto =
     (case own of
        Some p \<Rightarrow> p
      | None \<Rightarrow>
          (case proto of
             ObjectPrototype \<Rightarrow> PFunction Object_function
           | NullPrototype \<Rightarrow> PUndefined
           | ClassPrototype \<Rightarrow> PClass
           | FunctionPrototype f \<Rightarrow> PFunction f))"

definition callWithThis :: "Property \<Rightarrow> Material \<Rightarrow> JSError + Material" where
  "callWithThis p this =
     (case p of
        PFunction f \<Rightarrow> f this
      | PClass \<Rightarrow> Inl TypeError
      | PUndefined \<Rightarrow> Inl TypeError
      | PNotCallable \<Rightarrow> Inl TypeError)"

text \<open>
  The fields as they stand when the constructor's body starts: the base constructor has
  run, then the source's three initialisers; the two fields declared without one are
  \<^verbatim>\<open>undefined\<close>.
\<close>

definition initialFields :: "Library \<Rightarrow> string \<Rightarrow> Scene \<Rightarrow> Material" where
  "initialFields lib materialName scene =
     (PushMaterial_constructor lib materialName scene)
       \<lparr>diffuseTexture := None, diffuseColor := (1, 1, 1), disableLighting := False,
        maxSimultaneousLights := 4, renderId := None\<rparr>"

definition CustomMaterial_constructor ::
  "Library \<Rightarrow> string \<Rightarrow> Scene \<Rightarrow> CustomMaterialCode \<Rightarrow> JSError + CustomMaterial" where
  "CustomMaterial_constructor lib materialName scene code =
     (let this = initialFields lib materialName scene in
      case code of
        CodeNull \<Rightarrow> Inl TypeError
      | CodeUndefined \<Rightarrow> Inl TypeError
      | CodeObject own proto \<Rightarrow>
          (case callWithThis (getConstructorProperty own proto) this of
             Inl err \<Rightarrow> Inl err
           | Inr this1 \<Rightarrow> Inr \<lparr>materialFields = this1, customCode = code\<rparr>))"

text \<open>
  Lines 348-350. The library's parser calls the creation function it is given and then
  fills the object in; an exception of the creation function leaves through it.
\<close>

definition Parse :: "Library \<Rightarrow> string \<Rightarrow> Scene \<Rightarrow> JSError + CustomMaterial" where
  "Parse lib sourceName scene =
     (case CustomMaterial_constructor lib sourceName scene CodeNull of
        Inl err \<Rightarrow> Inl err
      | Inr cm \<Rightarrow> Inr (cm\<lparr>materialFields := SerializationHelper_Parse lib (materialFields cm)\<rparr>))"

text \<open>The values that \<^verbatim>\<open>.call(this)\<close> can run as a plain function.\<close>

definition isCallable :: "Property \<Rightarrow> bool" where
  "isCallable p = (case p of PFunction f \<Rightarrow> True | _ \<Rightarrow> False)"

section \<open>Edition.addVector (edition.ts)\<close>

text \<open>
  Lines 158-170. The argument is the object passed at run time; the four library classes
  the method can meet are unrelated, so \<^verbatim>\<open>instanceof\<close> is a test of the object's own
  class. The folder is a dat.GUI object of another library and is modelled as the calls
  made on it: \<open>FolderAdd p s\<close> is \<^verbatim>\<open>folder.add(vector, p).step(s).onChange(...)\<close>.
\<close>

datatype BabylonClass = ClassVector2 | ClassVector3 | ClassVector4 | ClassColor4

datatype VectorValue =
    Vector2 real real
  | Vector3 real real real
  | Vector4 real real real real
  | Color4 real real real real

fun classOf :: "VectorValue \<Rightarrow> BabylonClass" where
  "classOf (Vector2 x y) = ClassVector2"
| "classOf (Vector3 x y z) = ClassVector3"
| "classOf (Vector4 x y z w) = ClassVector4"
| "classOf (Color4 cr cg cb ca) = ClassColor4"

definition instanceof :: "VectorValue \<Rightarrow> BabylonClass \<Rightarrow> bool" where
  "instanceof v c = (classOf v = c)"

datatype GuiCall =
    AddFolder string
  | FolderAdd string real

definition addVector :: "string \<Rightarrow> VectorValue \<Rightarrow> GuiCall list" where
  "addVector folderName v =
     [AddFolder folderName, FolderAdd ''x'' (1 / 100), FolderAdd ''y'' (1 / 100)]
     @ (if instanceof v ClassVector3 \<or> instanceof v ClassVector4
        then [FolderAdd ''z'' (1 / 100)] else [])
     @ (if instanceof v ClassColor4 then [FolderAdd ''w'' (1 / 100)] else [])"

definition addsController :: "string \<Rightarrow> GuiCall list \<Rightarrow> bool" where
  "addsController p cs = (p \<in> set (concat (map (\<lambda>c. case c of FolderAdd q s \<Rightarrow> [q] | _ \<Rightarrow> []) cs)))"

section \<open>Sample inputs\<close>

text \<open>
  Concrete values on which the theorems below are instantiated. The sample library's
  helpers leave the defines as they are, its \<open>markAsProcessed\<close> clears the dirty flags,
  its engine answers every request with an effect that is ready at once, as an engine
  does that already holds the compiled program, and its base \<^verbatim>\<open>dispose\<close> detaches
  the sub-mesh's effect and defines.
\<close>

definition sampleScene :: Scene where
  "sampleScene =
     \<lparr> getRenderId = 5, texturesEnabled = True, lightsEnabled = True,
       sceneFogEnabled = False, fogMode = 0, getTransformMatrix = [], getViewMatrix = [] \<rparr>"

definition sampleMesh :: Mesh where
  "sampleMesh = \<lparr> meshName = ''box'', visibility = 1, applyFog = False \<rparr>"

definition sampleTexture :: BaseTexture where
  "sampleTexture =
     \<lparr> textureName = ''albedo'', textureIsReady = False, coordinatesIndex = 0, level = 1,
       getTextureMatrix = [] \<rparr>"

definition sampleEffect :: Effect where
  "sampleEffect = \<lparr> effectName = ''custom'', effectDefines = [], effectIsReady = True \<rparr>"

definition sampleDefines :: CustomMaterialDefines where
  "sampleDefines =
     \<lparr> isDirty = True, areTexturesDirty = True, needUVs = False, needNormals = False,
       libraryDefines = [],
       DIFFUSE = False, CLIPPLANE = False, ALPHATEST = False, DEPTHPREPASS = False,
       POINTSIZE = False, FOG = True, NORMAL = False, UV1 = False, UV2 = False,
       VERTEXCOLOR = False, VERTEXALPHA = False, NUM_BONE_INFLUENCERS = 1,
       BonesPerMesh = 0, INSTANCES = False \<rparr>"

definition sampleMaterial :: Material where
  "sampleMaterial =
     \<lparr> name = ''custom'', diffuseTexture = Some sampleTexture, diffuseColor = (1, 1, 1),
       disableLighting = False, maxSimultaneousLights = 4, renderId = None,
       isFrozen = False, wasPreviouslyReady = False, checkReadyOnEveryCall = False,
       alpha = 1, pointsCloud = True, pointSize = 2, fogEnabled = True,
       activeEffect = None \<rparr>"

definition sampleLibrary :: Library where
  "sampleLibrary =
     \<lparr> DiffuseTextureEnabled = True,
       newMaterialDefines =
         \<lparr> isDirty = True, areTexturesDirty = True, needUVs = False, needNormals = False,
           libraryDefines = [] \<rparr>,
       PrepareDefinesForMisc = (\<lambda>mesh scene useLog pc fog d. d),
       PrepareDefinesForLights = (\<lambda>scene mesh d spec maxLights disabled. (False, d)),
       PrepareDefinesForFrameBoundValues = (\<lambda>scene d inst. d),
       PrepareDefinesForAttributes = (\<lambda>mesh d useColor useBones. d),
       markAsProcessed = (\<lambda>d. d\<lparr>isDirty := False, areTexturesDirty := False\<rparr>),
       HandleFallbacksForShadows = (\<lambda>d fb maxLights. []),
       PrepareAttributesForBones = (\<lambda>attribs mesh d fb. (attribs, [])),
       PrepareAttributesForInstances = (\<lambda>attribs d. attribs),
       definesToString = (\<lambda>d. []),
       PrepareUniformsAndSamplersList = (\<lambda>u ub s d maxLights. (u, ub, s)),
       createEffect =
         (\<lambda>shader opts.
            \<lparr> effectName = shader, effectDefines = optDefines opts, effectIsReady = True \<rparr>),
       mustRebind = (\<lambda>scene e. False),
       FOGMODE_NONE = 0,
       PushMaterial_constructor = (\<lambda>n scene. sampleMaterial\<lparr>name := n\<rparr>),
       PushMaterial_dispose =
         (\<lambda>force m sm. (m, \<lparr> materialDefines = None, effect = None \<rparr>)),
       SerializationHelper_Parse = (\<lambda>m. m) \<rparr>"

definition sampleState :: State where
  "sampleState =
     \<lparr> material = sampleMaterial,
       subMesh = \<lparr> materialDefines = Some sampleDefines, effect = Some sampleEffect \<rparr>,
       calls = [] \<rparr>"

definition frozenState :: State where
  "frozenState =
     sampleState\<lparr>material := sampleMaterial\<lparr>isFrozen := True, wasPreviouslyReady := True\<rparr>\<rparr>"

definition unpreparedState :: State where
  "unpreparedState = sampleState\<lparr>subMesh := \<lparr>materialDefines = None, effect = None\<rparr>\<rparr>"

text \<open>A material without a texture, one that was ready in frame 5, and one whose defines
  are clean and that was last ready in frame 4.\<close>

definition untexturedState :: State where
  "untexturedState = sampleState\<lparr>material := sampleMaterial\<lparr>diffuseTexture := None\<rparr>\<rparr>"

definition sameFrameState :: State where
  "sameFrameState = sampleState\<lparr>material := sampleMaterial\<lparr>renderId := Some 5\<rparr>\<rparr>"

definition cleanDefines :: CustomMaterialDefines where
  "cleanDefines = sampleDefines\<lparr>isDirty := False, areTexturesDirty := False\<rparr>"

definition cleanState :: State where
  "cleanState =
     \<lparr> material = sampleMaterial\<lparr>renderId := Some 4, wasPreviouslyReady := True\<rparr>,
       subMesh = \<lparr> materialDefines = Some cleanDefines, effect = Some sampleEffect \<rparr>,
       calls = [] \<rparr>"

text \<open>The clean state with an effect that is still compiling.\<close>

definition pendingState :: State where
  "pendingState =
     cleanState\<lparr>subMesh := \<lparr> materialDefines = Some cleanDefines,
                              effect = Some (sampleEffect\<lparr>effectIsReady := False\<rparr>) \<rparr>\<rparr>"

section \<open>Notions of the specification\<close>

text \<open>The rank a call registers its fallback under.\<close>

definition fallbackRank :: "FallbackCall \<Rightarrow> nat" where
  "fallbackRank c = (case c of AddFallback k n \<Rightarrow> k | AddCPUSkinningFallback k mesh \<Rightarrow> k)"

definition hasCPUSkinningFallback :: "FallbackCall list \<Rightarrow> bool" where
  "hasCPUSkinningFallback fb =
     (filter (\<lambda>c. case c of AddCPUSkinningFallback k mesh \<Rightarrow> True | _ \<Rightarrow> False) fb \<noteq> [])"

text \<open>
  In the specification's words: the CPU-skinning fallback belongs to the chain when the
  bone-influencer count exceeds the number of bones the hardware supports per draw.
\<close>

text \<open>The fallbacks of every \<^verbatim>\<open>createEffect\<close> request among some calls, in order.\<close>

definition requestedFallbacks :: "LibraryCall list \<Rightarrow> FallbackCall list list" where
  "requestedFallbacks cs =
     concat (map (\<lambda>c. case c of CreateEffect n opts \<Rightarrow> [optFallbacks opts] | _ \<Rightarrow> []) cs)"

text \<open>
  The sample library with a \<^verbatim>\<open>PrepareAttributesForBones\<close> that registers a
  CPU-skinning fallback of its own when the mesh has bone influencers.
\<close>

definition skinningLibrary :: Library where
  "skinningLibrary =
     sampleLibrary\<lparr>PrepareAttributesForBones :=
       (\<lambda>attribs mesh d fb.
          (attribs, if 0 < NUM_BONE_INFLUENCERS d then [AddCPUSkinningFallback 0 mesh] else []))\<rparr>"

definition spec_cpuSkinningExpected :: "nat \<Rightarrow> CustomMaterialDefines \<Rightarrow> bool" where
  "spec_cpuSkinningExpected maxBonesPerDraw d = (maxBonesPerDraw < NUM_BONE_INFLUENCERS d)"

section \<open>Helper lemmas\<close>

lemma sameFrameReady_defines [simp]:
  "sameFrameReady scene m (sm\<lparr>materialDefines := x\<rparr>) = sameFrameReady scene m sm"
  by (simp add: sameFrameReady_def)

lemma effectReadyCheck_result:
  "effectReadyCheck scene st = (r, st') \<Longrightarrow>
     r = (\<exists>e. effect (subMesh st) = Some e \<and> effectIsReady e)
     \<and> subMesh st' = subMesh st
     \<and> (r \<longrightarrow> renderId (material st') = Some (getRenderId scene)
              \<and> wasPreviouslyReady (material st'))
     \<and> (\<not> r \<longrightarrow> material st' = material st)"
  by (auto simp: effectReadyCheck_def split: option.splits if_splits)

lemma effectReadyCheck_True:
  "effectReadyCheck scene st = (True, st1) \<Longrightarrow>
     subMesh st1 = subMesh st \<and> effect (subMesh st) \<noteq> None
     \<and> material st1 =
         (material st)\<lparr>renderId := Some (getRenderId scene), wasPreviouslyReady := True\<rparr>"
  by (auto simp: effectReadyCheck_def split: option.splits if_splits)

lemma texturesDomain_calls:
  "texturesDomain lib scene m d = (goOn, d1, cs1) \<Longrightarrow> filter isCreateEffect cs1 = []"
  by (auto simp: texturesDomain_def isCreateEffect_def Let_def split: if_splits option.splits)

lemma prepareDefinesCalls_noCreate [simp]: "filter isCreateEffect prepareDefinesCalls = []"
  by (simp add: prepareDefinesCalls_def isCreateEffect_def)

text \<open>What a call that answered \<open>True\<close> leaves behind.\<close>

lemma ready_True_state:
  assumes "isReadyForSubMesh lib scene mesh useInstances st = (True, st1)"
  shows "checkReadyOnEveryCall (material st1) = checkReadyOnEveryCall (material st)
     \<and> (frozenReady (material st1) (subMesh st1)
        \<or> (materialDefines (subMesh st1) \<noteq> None \<and> effect (subMesh st1) \<noteq> None
           \<and> (checkReadyOnEveryCall (material st)
               \<or> renderId (material st1) = Some (getRenderId scene))))"
  using assms
  by (auto simp: isReadyForSubMesh_def Let_def sameFrameReady_def
           split: prod.splits if_splits dest!: effectReadyCheck_True)

lemma shortcut_call:
  assumes "frozenReady (material st) (subMesh st)
     \<or> (materialDefines (subMesh st) \<noteq> None \<and> sameFrameReady scene (material st) (subMesh st))"
  shows "isReadyForSubMesh lib scene mesh useInstances st = (True, st)"
  using assms
  by (auto simp: isReadyForSubMesh_def Let_def definesOf_def)

lemma repeated_call:
  assumes "\<not> checkReadyOnEveryCall (material st)"
    and "isReadyForSubMesh lib scene mesh useInstances st = (True, st1)"
  shows "isReadyForSubMesh lib' scene mesh' useInstances' st1 = (True, st1)"
proof -
  from ready_True_state [OF assms(2)] assms(1)
  have "frozenReady (material st1) (subMesh st1)
     \<or> (materialDefines (subMesh st1) \<noteq> None \<and> sameFrameReady scene (material st1) (subMesh st1))"
    by (auto simp: sameFrameReady_def)
  then show ?thesis by (rule shortcut_call)
qed

lemma sameFrame_call:
  assumes "\<not> checkReadyOnEveryCall (material st)"
    and "effect (subMesh st) = Some e"
    and "renderId (material st) = Some (getRenderId scene)"
  shows "fst (isReadyForSubMesh lib scene mesh useInstances st)
     \<and> newCalls st (snd (isReadyForSubMesh lib scene mesh useInstances st)) = []
     \<and> material (snd (isReadyForSubMesh lib scene mesh useInstances st)) = material st
     \<and> effect (subMesh (snd (isReadyForSubMesh lib scene mesh useInstances st))) = Some e
     \<and> (materialDefines (subMesh st) = Some d \<longrightarrow>
          isReadyForSubMesh lib scene mesh useInstances st = (True, st))"
  using assms
  by (auto simp: isReadyForSubMesh_def Let_def sameFrameReady_def definesOf_def newCalls_def)

lemma clean_call:
  assumes "\<not> frozenReady (material st) (subMesh st)"
    and "\<not> sameFrameReady scene (material st) (subMesh st)"
    and "texturesDomain lib scene (material st) (definesOf lib (subMesh st)) = (True, d1, cs1)"
    and "\<not> isDirty (prepareDefines lib scene mesh useInstances (material st) d1)"
  shows "filter isCreateEffect
           (newCalls st (snd (isReadyForSubMesh lib scene mesh useInstances st))) = []
     \<and> effect (subMesh (snd (isReadyForSubMesh lib scene mesh useInstances st)))
         = effect (subMesh st)
     \<and> fst (isReadyForSubMesh lib scene mesh useInstances st)
         = (\<exists>e'. effect (subMesh st) = Some e' \<and> effectIsReady e')"
proof -
  let ?st2 = "st\<lparr>subMesh := (subMesh st)\<lparr>materialDefines :=
                 Some (prepareDefines lib scene mesh useInstances (material st) d1)\<rparr>,
               calls := calls st @ cs1 @ prepareDefinesCalls\<rparr>"
  have run: "isReadyForSubMesh lib scene mesh useInstances st = effectReadyCheck scene ?st2"
    using assms by (simp add: isReadyForSubMesh_def Let_def)
  have nc: "filter isCreateEffect cs1 = []"
    using assms(3) by (rule texturesDomain_calls)
  show ?thesis
    unfolding run using nc
    by (auto simp: effectReadyCheck_def newCalls_def isCreateEffect_def
             split: option.splits)
qed

text \<open>The sample inputs, evaluated.\<close>

lemmas sample_defs =
  sampleLibrary_def sampleScene_def sampleMesh_def sampleTexture_def sampleEffect_def
  sampleDefines_def sampleMaterial_def sampleState_def frozenState_def unpreparedState_def
  untexturedState_def sameFrameState_def cleanDefines_def cleanState_def pendingState_def

lemmas isReady_defs =
  isReadyForSubMesh_def frozenReady_def sameFrameReady_def definesOf_def texturesDomain_def
  prepareDefines_def prepareDefinesCalls_def compileEffect_def effectReadyCheck_def Let_def

section \<open>Properties of the specification\<close>

text \<open>
  C1. With \<^verbatim>\<open>checkReadyOnEveryCall\<close> false, a repeated call answers ready without the
  compiler. First conjunct: when the sub-mesh has an effect and the material's recorded
  render id is the scene's, the call returns true, makes no library call, leaves the
  material and the effect alone, and leaves a state with defines wholly unchanged. Second
  conjunct: after any call that returned true, a further call against the same scene
  returns true and changes nothing, whatever the library, mesh and instancing flag.
  Third conjunct: a call that gets past both guards and whose refreshed defines are not
  dirty makes no \<^verbatim>\<open>createEffect\<close> call, keeps the sub-mesh's effect, and answers with that
  effect's readiness.
\<close>

theorem isReadyForSubMesh_repeated_call:
  assumes "\<not> checkReadyOnEveryCall (material st)"
  shows "(effect (subMesh st) = Some e \<and> renderId (material st) = Some (getRenderId scene) \<longrightarrow>
            fst (isReadyForSubMesh lib scene mesh useInstances st)
          \<and> newCalls st (snd (isReadyForSubMesh lib scene mesh useInstances st)) = []
          \<and> material (snd (isReadyForSubMesh lib scene mesh useInstances st)) = material st
          \<and> effect (subMesh (snd (isReadyForSubMesh lib scene mesh useInstances st))) = Some e
          \<and> (materialDefines (subMesh st) = Some d \<longrightarrow>
               isReadyForSubMesh lib scene mesh useInstances st = (True, st)))
     \<and> (isReadyForSubMesh lib scene mesh useInstances st = (True, st1) \<longrightarrow>
            isReadyForSubMesh lib' scene mesh' useInstances' st1 = (True, st1))
     \<and> (\<not> frozenReady (material st) (subMesh st)
          \<and> \<not> sameFrameReady scene (material st) (subMesh st)
          \<and> texturesDomain lib scene (material st) (definesOf lib (subMesh st)) = (True, d1, cs1)
          \<and> \<not> isDirty (prepareDefines lib scene mesh useInstances (material st) d1) \<longrightarrow>
            filter isCreateEffect
              (newCalls st (snd (isReadyForSubMesh lib scene mesh useInstances st))) = []
          \<and> effect (subMesh (snd (isReadyForSubMesh lib scene mesh useInstances st)))
              = effect (subMesh st)
          \<and> fst (isReadyForSubMesh lib scene mesh useInstances st)
              = (\<exists>e'. effect (subMesh st) = Some e' \<and> effectIsReady e'))"
  using assms sameFrame_call [of st e scene lib mesh useInstances d]
    repeated_call [of st lib scene mesh useInstances st1 lib' mesh' useInstances']
    clean_call [of st scene lib d1 cs1 mesh useInstances]
  by blast

theorem isReadyForSubMesh_repeated_call_witness:
  "\<not> checkReadyOnEveryCall (material sameFrameState)
   \<and> effect (subMesh sameFrameState) = Some sampleEffect
   \<and> renderId (material sameFrameState) = Some (getRenderId sampleScene)
   \<and> materialDefines (subMesh sameFrameState) = Some sampleDefines
   \<and> isReadyForSubMesh sampleLibrary sampleScene sampleMesh None sameFrameState
       = (True, sameFrameState)
   \<and> fst (isReadyForSubMesh sampleLibrary sampleScene sampleMesh None untexturedState)
   \<and> isReadyForSubMesh sampleLibrary sampleScene sampleMesh (Some True)
       (snd (isReadyForSubMesh sampleLibrary sampleScene sampleMesh None untexturedState))
       = (True, snd (isReadyForSubMesh sampleLibrary sampleScene sampleMesh None untexturedState))
   \<and> \<not> frozenReady (material cleanState) (subMesh cleanState)
   \<and> \<not> sameFrameReady sampleScene (material cleanState) (subMesh cleanState)
   \<and> texturesDomain sampleLibrary sampleScene (material cleanState)
        (definesOf sampleLibrary (subMesh cleanState)) = (True, cleanDefines, [])
   \<and> \<not> isDirty (prepareDefines sampleLibrary sampleScene sampleMesh None
                  (material cleanState) cleanDefines)
   \<and> filter isCreateEffect
        (newCalls cleanState
           (snd (isReadyForSubMesh sampleLibrary sampleScene sampleMesh None cleanState))) = []
   \<and> effect (subMesh (snd (isReadyForSubMesh sampleLibrary sampleScene sampleMesh None
        cleanState))) = Some sampleEffect
   \<and> fst (isReadyForSubMesh sampleLibrary sampleScene sampleMesh None cleanState)"
proof -
  have a0: "\<not> checkReadyOnEveryCall (material sameFrameState)"
    and a1: "effect (subMesh sameFrameState) = Some sampleEffect"
    and a2: "renderId (material sameFrameState) = Some (getRenderId sampleScene)"
    and a3: "materialDefines (subMesh sameFrameState) = Some sampleDefines"
    by (simp_all add: sameFrameState_def sampleState_def sampleMaterial_def sampleScene_def)
  have b0: "\<not> checkReadyOnEveryCall (material untexturedState)"
    by (simp add: untexturedState_def sampleMaterial_def)
  have b1: "fst (isReadyForSubMesh sampleLibrary sampleScene sampleMesh None untexturedState)"
    by (simp add: isReady_defs sample_defs)
  then have b2: "isReadyForSubMesh sampleLibrary sampleScene sampleMesh None untexturedState
      = (True, snd (isReadyForSubMesh sampleLibrary sampleScene sampleMesh None untexturedState))"
    by (simp add: prod_eq_iff)
  have c0: "\<not> checkReadyOnEveryCall (material cleanState)"
    and c1: "\<not> frozenReady (material cleanState) (subMesh cleanState)"
    and c2: "\<not> sameFrameReady sampleScene (material cleanState) (subMesh cleanState)"
    and c3: "texturesDomain sampleLibrary sampleScene (material cleanState)
        (definesOf sampleLibrary (subMesh cleanState)) = (True, cleanDefines, [])"
    and c4: "\<not> isDirty (prepareDefines sampleLibrary sampleScene sampleMesh None
                  (material cleanState) cleanDefines)"
    and c5: "effect (subMesh cleanState) = Some sampleEffect"
    and c6: "effectIsReady sampleEffect"
    by (simp_all add: isReady_defs sample_defs)
  from isReadyForSubMesh_repeated_call [OF a0, of sampleEffect sampleScene sampleLibrary
      sampleMesh None sampleDefines] a1 a2 a3
  have A: "isReadyForSubMesh sampleLibrary sampleScene sampleMesh None sameFrameState
       = (True, sameFrameState)" by blast
  from isReadyForSubMesh_repeated_call [OF b0, where lib = sampleLibrary
      and scene = sampleScene and mesh = sampleMesh and useInstances = None
      and ?st1.0 = "snd (isReadyForSubMesh sampleLibrary sampleScene sampleMesh None
        untexturedState)"
      and lib' = sampleLibrary and mesh' = sampleMesh and useInstances' = "Some True"] b2
  have B: "isReadyForSubMesh sampleLibrary sampleScene sampleMesh (Some True)
       (snd (isReadyForSubMesh sampleLibrary sampleScene sampleMesh None untexturedState))
       = (True, snd (isReadyForSubMesh sampleLibrary sampleScene sampleMesh None untexturedState))"
    by blast
  from isReadyForSubMesh_repeated_call [OF c0, where lib = sampleLibrary
      and scene = sampleScene and mesh = sampleMesh and useInstances = None
      and ?d1.0 = cleanDefines and ?cs1.0 = "[]"] c1 c2 c3 c4
  have C: "filter isCreateEffect
        (newCalls cleanState
           (snd (isReadyForSubMesh sampleLibrary sampleScene sampleMesh None cleanState))) = []
     \<and> effect (subMesh (snd (isReadyForSubMesh sampleLibrary sampleScene sampleMesh None
          cleanState))) = effect (subMesh cleanState)
     \<and> fst (isReadyForSubMesh sampleLibrary sampleScene sampleMesh None cleanState)
         = (\<exists>e'. effect (subMesh cleanState) = Some e' \<and> effectIsReady e')"
    by blast
  from C c5 c6 have C': "filter isCreateEffect
        (newCalls cleanState
           (snd (isReadyForSubMesh sampleLibrary sampleScene sampleMesh None cleanState))) = []
     \<and> effect (subMesh (snd (isReadyForSubMesh sampleLibrary sampleScene sampleMesh None
          cleanState))) = Some sampleEffect
     \<and> fst (isReadyForSubMesh sampleLibrary sampleScene sampleMesh None cleanState)"
    by simp
  from a0 a1 a2 a3 A b1 B c1 c2 c3 c4 C' show ?thesis by blast
qed

text \<open>
  C2, as the code has it. A call that neither guard answers, in which the textures domain
  is dirty, the scene's textures are enabled, the global switch
  \<^verbatim>\<open>StandardMaterial.DiffuseTextureEnabled\<close> is on, and the diffuse texture is present
  but not ready, returns false at once: the only library call is the texture's
  \<^verbatim>\<open>isReady()\<close>, the only write to the defines is \<^verbatim>\<open>_needUVs = false\<close> (so they
  are not marked processed), and the material, with its render id, is as before.
\<close>

theorem isReadyForSubMesh_texture_not_ready:
  assumes "\<not> frozenReady (material st) (subMesh st)"
    and "\<not> sameFrameReady scene (material st) (subMesh st)"
    and "areTexturesDirty (definesOf lib (subMesh st))"
    and "texturesEnabled scene"
    and "DiffuseTextureEnabled lib"
    and "diffuseTexture (material st) = Some t"
    and "\<not> textureIsReady t"
  shows "isReadyForSubMesh lib scene mesh useInstances st =
           (False, st\<lparr>subMesh := (subMesh st)\<lparr>materialDefines :=
                                      Some ((definesOf lib (subMesh st))\<lparr>needUVs := False\<rparr>)\<rparr>,
                       calls := calls st @ [TextureIsReady t]\<rparr>)
     \<and> renderId (material (snd (isReadyForSubMesh lib scene mesh useInstances st)))
         = renderId (material st)
     \<and> newCalls st (snd (isReadyForSubMesh lib scene mesh useInstances st)) = [TextureIsReady t]"
  using assms
  by (simp add: isReadyForSubMesh_def Let_def texturesDomain_def newCalls_def)

theorem isReadyForSubMesh_texture_not_ready_witness:
  "\<not> frozenReady (material sampleState) (subMesh sampleState)
   \<and> \<not> sameFrameReady sampleScene (material sampleState) (subMesh sampleState)
   \<and> areTexturesDirty (definesOf sampleLibrary (subMesh sampleState))
   \<and> texturesEnabled sampleScene
   \<and> DiffuseTextureEnabled sampleLibrary
   \<and> diffuseTexture (material sampleState) = Some sampleTexture
   \<and> \<not> textureIsReady sampleTexture
   \<and> fst (isReadyForSubMesh sampleLibrary sampleScene sampleMesh None sampleState) = False
   \<and> renderId (material (snd (isReadyForSubMesh sampleLibrary sampleScene sampleMesh None
        sampleState))) = None
   \<and> newCalls sampleState (snd (isReadyForSubMesh sampleLibrary sampleScene sampleMesh None
        sampleState)) = [TextureIsReady sampleTexture]"
proof -
  have h1: "\<not> frozenReady (material sampleState) (subMesh sampleState)"
    and h2: "\<not> sameFrameReady sampleScene (material sampleState) (subMesh sampleState)"
    and h3: "areTexturesDirty (definesOf sampleLibrary (subMesh sampleState))"
    and h4: "texturesEnabled sampleScene"
    and h5: "DiffuseTextureEnabled sampleLibrary"
    and h6: "diffuseTexture (material sampleState) = Some sampleTexture"
    and h7: "\<not> textureIsReady sampleTexture"
    and h8: "renderId (material sampleState) = None"
    by (simp_all add: isReady_defs sample_defs)
  from isReadyForSubMesh_texture_not_ready [OF h1 h2 h3 h4 h5 h6 h7, of sampleMesh None]
    h1 h2 h3 h4 h5 h6 h7 h8
  show ?thesis by (simp add: newCalls_def)
qed

text \<open>
  C2 as stated fails: with the global switch \<^verbatim>\<open>StandardMaterial.DiffuseTextureEnabled\<close>
  off, the textures domain is dirty, the scene's textures are enabled and the diffuse
  texture is present and not ready, yet the call goes on, returns true and records the
  render id 5.
\<close>

theorem isReadyForSubMesh_texture_not_ready_counterexample:
  "areTexturesDirty
     (definesOf (sampleLibrary\<lparr>DiffuseTextureEnabled := False\<rparr>) (subMesh sampleState))
   \<and> texturesEnabled sampleScene
   \<and> diffuseTexture (material sampleState) = Some sampleTexture
   \<and> \<not> textureIsReady sampleTexture
   \<and> fst (isReadyForSubMesh (sampleLibrary\<lparr>DiffuseTextureEnabled := False\<rparr>)
             sampleScene sampleMesh None sampleState) = True
   \<and> renderId (material sampleState) = None
   \<and> renderId (material (snd (isReadyForSubMesh
         (sampleLibrary\<lparr>DiffuseTextureEnabled := False\<rparr>)
         sampleScene sampleMesh None sampleState))) = Some 5"
  by (simp add: isReady_defs sample_defs)

lemma requestedFallbacks_append [simp]:
  "requestedFallbacks (xs @ ys) = requestedFallbacks xs @ requestedFallbacks ys"
  by (simp add: requestedFallbacks_def)

lemma requestedFallbacks_textures:
  "texturesDomain lib scene m d = (goOn, d1, cs1) \<Longrightarrow> requestedFallbacks cs1 = []"
  by (auto simp: texturesDomain_def requestedFallbacks_def Let_def
           split: if_splits option.splits)

lemma requestedFallbacks_prepare [simp]: "requestedFallbacks prepareDefinesCalls = []"
  by (simp add: prepareDefinesCalls_def requestedFallbacks_def)

lemma requestedFallbacks_effectReadyCheck:
  "requestedFallbacks (newCalls st (snd (effectReadyCheck scene (s\<lparr>calls := calls st @ xs\<rparr>))))
     = requestedFallbacks xs"
  by (simp add: effectReadyCheck_def newCalls_def requestedFallbacks_def split: option.splits)

lemma buildFallbacks_flat:
  "buildFallbacks lib mesh m d =
     (if FOG d then [AddFallback 1 ''FOG''] else [])
     @ HandleFallbacksForShadows lib d (if FOG d then [AddFallback 1 ''FOG''] else [])
         (maxSimultaneousLights m)
     @ (if 0 < NUM_BONE_INFLUENCERS d then [AddCPUSkinningFallback 0 mesh] else [])"
  by (simp add: buildFallbacks_def Let_def)

lemma compileEffect_fallbacks:
  "compileEffect lib mesh m d = (d3, e, cs3) \<Longrightarrow>
     requestedFallbacks cs3 =
       [buildFallbacks lib mesh m (markAsProcessed lib d)
        @ snd (PrepareAttributesForBones lib (buildAttribs (markAsProcessed lib d)) mesh
                 (markAsProcessed lib d) (buildFallbacks lib mesh m (markAsProcessed lib d)))]"
  by (auto simp: compileEffect_def Let_def requestedFallbacks_def split: prod.splits)

text \<open>
  C3, as the code has it. In a call that gets past both guards and the textures domain,
  \<^verbatim>\<open>createEffect\<close> is requested exactly when the refreshed defines are dirty, and once.
  The fallbacks that request carries were registered, on the defines as marked processed,
  in this order: the fallback \<^verbatim>\<open>FOG\<close> at rank 1 when the define \<^verbatim>\<open>FOG\<close> is
  set; whatever \<^verbatim>\<open>HandleFallbacksForShadows\<close> registers for the defines and the light
  cap; a CPU-skinning fallback at rank 0 when \<^verbatim>\<open>NUM_BONE_INFLUENCERS\<close> is positive;
  and last whatever \<^verbatim>\<open>PrepareAttributesForBones\<close> registers when it is handed that
  chain.
\<close>

theorem isReadyForSubMesh_fallbacks:
  assumes "\<not> frozenReady (material st) (subMesh st)"
    and "\<not> sameFrameReady scene (material st) (subMesh st)"
    and "texturesDomain lib scene (material st) (definesOf lib (subMesh st)) = (True, d1, cs1)"
  shows "(let d2 = prepareDefines lib scene mesh useInstances (material st) d1;
              d = markAsProcessed lib d2;
              fog = (if FOG d then [AddFallback 1 ''FOG''] else []);
              chain = fog
                @ HandleFallbacksForShadows lib d fog (maxSimultaneousLights (material st))
                @ (if 0 < NUM_BONE_INFLUENCERS d then [AddCPUSkinningFallback 0 mesh] else [])
          in requestedFallbacks
               (newCalls st (snd (isReadyForSubMesh lib scene mesh useInstances st)))
             = (if isDirty d2
                then [chain @ snd (PrepareAttributesForBones lib (buildAttribs d) mesh d chain)]
                else []))"
proof -
  let ?d2 = "prepareDefines lib scene mesh useInstances (material st) d1"
  have tex: "requestedFallbacks cs1 = []"
    using assms(3) by (rule requestedFallbacks_textures)
  show ?thesis
  proof (cases "isDirty ?d2")
    case False
    with assms have "isReadyForSubMesh lib scene mesh useInstances st =
        effectReadyCheck scene
          (st\<lparr>subMesh := (subMesh st)\<lparr>materialDefines := Some ?d2\<rparr>,
              calls := calls st @ cs1 @ prepareDefinesCalls\<rparr>)"
      by (simp add: isReadyForSubMesh_def Let_def)
    with False tex show ?thesis
      by (simp add: Let_def requestedFallbacks_effectReadyCheck)
  next
    case True
    obtain d3 e cs3 where ce: "compileEffect lib mesh (material st) ?d2 = (d3, e, cs3)"
      by (cases "compileEffect lib mesh (material st) ?d2") auto
    with True assms have "isReadyForSubMesh lib scene mesh useInstances st =
        effectReadyCheck scene
          (st\<lparr>subMesh := \<lparr>materialDefines = Some d3, effect = Some e\<rparr>,
              calls := calls st @ (cs1 @ prepareDefinesCalls) @ cs3\<rparr>)"
      by (simp add: isReadyForSubMesh_def Let_def)
    with True tex compileEffect_fallbacks [OF ce] show ?thesis
      by (simp add: Let_def requestedFallbacks_effectReadyCheck buildFallbacks_flat)
  qed
qed

theorem isReadyForSubMesh_fallbacks_witness:
  "\<not> frozenReady (material untexturedState) (subMesh untexturedState)
   \<and> \<not> sameFrameReady sampleScene (material untexturedState) (subMesh untexturedState)
   \<and> texturesDomain skinningLibrary sampleScene (material untexturedState)
        (definesOf skinningLibrary (subMesh untexturedState))
       = (True, sampleDefines\<lparr>needUVs := False\<rparr>, [])
   \<and> isDirty (prepareDefines skinningLibrary sampleScene sampleMesh None
                (material untexturedState) (sampleDefines\<lparr>needUVs := False\<rparr>))
   \<and> requestedFallbacks
        (newCalls untexturedState
           (snd (isReadyForSubMesh skinningLibrary sampleScene sampleMesh None untexturedState)))
       = [[AddFallback 1 ''FOG'', AddCPUSkinningFallback 0 sampleMesh,
           AddCPUSkinningFallback 0 sampleMesh]]
   \<and> requestedFallbacks
        (newCalls cleanState
           (snd (isReadyForSubMesh skinningLibrary sampleScene sampleMesh None cleanState)))
       = []"
proof -
  have a1: "\<not> frozenReady (material untexturedState) (subMesh untexturedState)"
    and a2: "\<not> sameFrameReady sampleScene (material untexturedState) (subMesh untexturedState)"
    and a3: "texturesDomain skinningLibrary sampleScene (material untexturedState)
        (definesOf skinningLibrary (subMesh untexturedState))
       = (True, sampleDefines\<lparr>needUVs := False\<rparr>, [])"
    and a4: "isDirty (prepareDefines skinningLibrary sampleScene sampleMesh None
                (material untexturedState) (sampleDefines\<lparr>needUVs := False\<rparr>))"
    by (simp_all add: isReady_defs sample_defs skinningLibrary_def)
  have b1: "\<not> frozenReady (material cleanState) (subMesh cleanState)"
    and b2: "\<not> sameFrameReady sampleScene (material cleanState) (subMesh cleanState)"
    and b3: "texturesDomain skinningLibrary sampleScene (material cleanState)
        (definesOf skinningLibrary (subMesh cleanState)) = (True, cleanDefines, [])"
    and b4: "\<not> isDirty (prepareDefines skinningLibrary sampleScene sampleMesh None
                (material cleanState) cleanDefines)"
    by (simp_all add: isReady_defs sample_defs skinningLibrary_def)
  have A: "requestedFallbacks
        (newCalls untexturedState
           (snd (isReadyForSubMesh skinningLibrary sampleScene sampleMesh None untexturedState)))
       = [[AddFallback 1 ''FOG'', AddCPUSkinningFallback 0 sampleMesh,
           AddCPUSkinningFallback 0 sampleMesh]]"
    using isReadyForSubMesh_fallbacks [OF a1 a2 a3, where mesh = sampleMesh
        and useInstances = None] a4
    by (simp add: Let_def prepareDefines_def skinningLibrary_def sampleLibrary_def
        sampleDefines_def untexturedState_def sampleState_def sampleMaterial_def)
  have B: "requestedFallbacks
        (newCalls cleanState
           (snd (isReadyForSubMesh skinningLibrary sampleScene sampleMesh None cleanState)))
       = []"
    using isReadyForSubMesh_fallbacks [OF b1 b2 b3, where mesh = sampleMesh
        and useInstances = None] b4
    by (simp add: Let_def)
  from a1 a2 a3 a4 A B show ?thesis by blast
qed

text \<open>
  C3 as stated fails: with fog on and one bone influencer, on hardware that supports four
  bones per draw, the chain the material registers, and the one its \<^verbatim>\<open>createEffect\<close>
  request carries, is the fog fallback at rank 1 followed by the CPU-skinning fallback at
  rank 0. The ranks do not increase, and the CPU-skinning fallback is there although the
  count does not exceed the limit.
\<close>

theorem isReadyForSubMesh_fallbacks_counterexample:
  "map fallbackRank (buildFallbacks sampleLibrary sampleMesh sampleMaterial sampleDefines) = [1, 0]
   \<and> \<not> sorted (map fallbackRank
                  (buildFallbacks sampleLibrary sampleMesh sampleMaterial sampleDefines))
   \<and> hasCPUSkinningFallback (buildFallbacks sampleLibrary sampleMesh sampleMaterial sampleDefines)
   \<and> \<not> spec_cpuSkinningExpected 4 sampleDefines
   \<and> NUM_BONE_INFLUENCERS sampleDefines = 1
   \<and> requestedFallbacks
        (newCalls untexturedState
           (snd (isReadyForSubMesh sampleLibrary sampleScene sampleMesh None untexturedState)))
       = [[AddFallback 1 ''FOG'', AddCPUSkinningFallback 0 sampleMesh]]"
  by (simp add: buildFallbacks_def fallbackRank_def hasCPUSkinningFallback_def
      spec_cpuSkinningExpected_def requestedFallbacks_def newCalls_def buildAttribs_def
      isReady_defs sample_defs)

text \<open>
  C4. A frozen material that was ready before, asked about a sub-mesh that holds an
  effect, answers true and leaves the whole state as it was: no defines are created or
  refreshed and no library call is made, for every library, scene, mesh and instancing
  flag.
\<close>

theorem isReadyForSubMesh_frozen:
  assumes "isFrozen (material st)"
    and "wasPreviouslyReady (material st)"
    and "effect (subMesh st) = Some e"
  shows "isReadyForSubMesh lib scene mesh useInstances st = (True, st)"
  using assms by (simp add: isReadyForSubMesh_def frozenReady_def)

theorem isReadyForSubMesh_frozen_witness:
  "isFrozen (material frozenState) \<and> wasPreviouslyReady (material frozenState)
   \<and> effect (subMesh frozenState) = Some sampleEffect
   \<and> isReadyForSubMesh sampleLibrary (sampleScene\<lparr>getRenderId := 6, lightsEnabled := False\<rparr>)
        sampleMesh None frozenState = (True, frozenState)"
proof -
  have h1: "isFrozen (material frozenState)"
    and h2: "wasPreviouslyReady (material frozenState)"
    and h3: "effect (subMesh frozenState) = Some sampleEffect"
    by (simp_all add: frozenState_def sampleState_def)
  from isReadyForSubMesh_frozen [OF h1 h2 h3] h1 h2 h3 show ?thesis by simp
qed

text \<open>
  C5. In a call that gets past both guards and the textures domain, the answer is true
  exactly when the sub-mesh then holds an effect that is ready; on true the material has
  recorded the scene's render id and that it was ready, on false both are as before.
\<close>

theorem isReadyForSubMesh_result:
  assumes "\<not> frozenReady (material st) (subMesh st)"
    and "\<not> sameFrameReady scene (material st) (subMesh st)"
    and "fst (texturesDomain lib scene (material st) (definesOf lib (subMesh st)))"
  shows "fst (isReadyForSubMesh lib scene mesh useInstances st)
           = (\<exists>e. effect (subMesh (snd (isReadyForSubMesh lib scene mesh useInstances st)))
                     = Some e \<and> effectIsReady e)
     \<and> (fst (isReadyForSubMesh lib scene mesh useInstances st) \<longrightarrow>
          renderId (material (snd (isReadyForSubMesh lib scene mesh useInstances st)))
            = Some (getRenderId scene)
          \<and> wasPreviouslyReady (material (snd (isReadyForSubMesh lib scene mesh useInstances st))))
     \<and> (\<not> fst (isReadyForSubMesh lib scene mesh useInstances st) \<longrightarrow>
          renderId (material (snd (isReadyForSubMesh lib scene mesh useInstances st)))
            = renderId (material st)
          \<and> wasPreviouslyReady (material (snd (isReadyForSubMesh lib scene mesh useInstances st)))
            = wasPreviouslyReady (material st))"
proof -
  obtain r st' where run: "isReadyForSubMesh lib scene mesh useInstances st = (r, st')"
    by (cases "isReadyForSubMesh lib scene mesh useInstances st")
  from assms run
  have "r = (\<exists>e. effect (subMesh st') = Some e \<and> effectIsReady e)
     \<and> (r \<longrightarrow> renderId (material st') = Some (getRenderId scene)
              \<and> wasPreviouslyReady (material st'))
     \<and> (\<not> r \<longrightarrow> renderId (material st') = renderId (material st)
              \<and> wasPreviouslyReady (material st') = wasPreviouslyReady (material st))"
    by (auto simp: isReadyForSubMesh_def Let_def split: prod.splits if_splits
             dest!: effectReadyCheck_result)
  then show ?thesis by (simp add: run)
qed

theorem isReadyForSubMesh_result_witness:
  "\<not> frozenReady (material untexturedState) (subMesh untexturedState)
   \<and> \<not> sameFrameReady sampleScene (material untexturedState) (subMesh untexturedState)
   \<and> fst (texturesDomain sampleLibrary sampleScene (material untexturedState)
            (definesOf sampleLibrary (subMesh untexturedState)))
   \<and> fst (isReadyForSubMesh sampleLibrary sampleScene sampleMesh None untexturedState)
   \<and> renderId (material (snd (isReadyForSubMesh sampleLibrary sampleScene sampleMesh None
        untexturedState))) = Some 5
   \<and> wasPreviouslyReady (material (snd (isReadyForSubMesh sampleLibrary sampleScene sampleMesh
        None untexturedState)))
   \<and> \<not> frozenReady (material pendingState) (subMesh pendingState)
   \<and> \<not> sameFrameReady sampleScene (material pendingState) (subMesh pendingState)
   \<and> fst (texturesDomain sampleLibrary sampleScene (material pendingState)
            (definesOf sampleLibrary (subMesh pendingState)))
   \<and> \<not> fst (isReadyForSubMesh sampleLibrary sampleScene sampleMesh None pendingState)
   \<and> renderId (material (snd (isReadyForSubMesh sampleLibrary sampleScene sampleMesh None
        pendingState))) = Some 4"
proof -
  have a1: "\<not> frozenReady (material untexturedState) (subMesh untexturedState)"
    and a2: "\<not> sameFrameReady sampleScene (material untexturedState) (subMesh untexturedState)"
    and a3: "fst (texturesDomain sampleLibrary sampleScene (material untexturedState)
            (definesOf sampleLibrary (subMesh untexturedState)))"
    and a4: "fst (isReadyForSubMesh sampleLibrary sampleScene sampleMesh None untexturedState)"
    and a5: "getRenderId sampleScene = 5"
    by (simp_all add: isReady_defs sample_defs)
  have b1: "\<not> frozenReady (material pendingState) (subMesh pendingState)"
    and b2: "\<not> sameFrameReady sampleScene (material pendingState) (subMesh pendingState)"
    and b3: "fst (texturesDomain sampleLibrary sampleScene (material pendingState)
            (definesOf sampleLibrary (subMesh pendingState)))"
    and b4: "\<not> fst (isReadyForSubMesh sampleLibrary sampleScene sampleMesh None pendingState)"
    and b5: "renderId (material pendingState) = Some 4"
    by (simp_all add: isReady_defs sample_defs)
  from isReadyForSubMesh_result [OF a1 a2 a3, of sampleMesh None] a4 a5
  have A: "renderId (material (snd (isReadyForSubMesh sampleLibrary sampleScene sampleMesh None
        untexturedState))) = Some 5
     \<and> wasPreviouslyReady (material (snd (isReadyForSubMesh sampleLibrary sampleScene sampleMesh
        None untexturedState)))"
    by simp
  from isReadyForSubMesh_result [OF b1 b2 b3, of sampleMesh None] b4 b5
  have B: "renderId (material (snd (isReadyForSubMesh sampleLibrary sampleScene sampleMesh None
        pendingState))) = Some 4"
    by simp
  from a1 a2 a3 a4 A b1 b2 b3 b4 B show ?thesis by blast
qed

text \<open>
  C6. In a call of \<^verbatim>\<open>bindForSubMesh\<close> on a sub-mesh that has defines and an effect:
  without a rebind none of the rebind-scoped writes is made (the texture sampler with its
  infos and matrix, the clip plane, the point size, the eye position); with a rebind the
  clip plane and the eye position are written, the point size when the material is a
  points cloud, and the texture's three writes when the material has a texture and
  diffuse textures are enabled. Whatever the rebind says, the world and view-projection
  matrices, the bone parameters, the diffuse colour with \<^verbatim>\<open>alpha * mesh.visibility\<close>
  and the fog parameters are written, and the lights are bound exactly when the scene's
  lights are enabled and the material's lighting is not disabled.
\<close>

theorem bindForSubMesh_writes:
  assumes "materialDefines (subMesh st) = Some d"
    and "effect (subMesh st) = Some e"
  shows "(\<not> mustRebind lib scene e \<longrightarrow>
            filter isRebindScoped (newCalls st (bindForSubMesh lib scene world mesh st)) = [])
     \<and> (mustRebind lib scene e \<longrightarrow>
            BindClipPlane e scene \<in> set (newCalls st (bindForSubMesh lib scene world mesh st))
          \<and> BindEyePosition e scene \<in> set (newCalls st (bindForSubMesh lib scene world mesh st))
          \<and> (pointsCloud (material st) \<longrightarrow>
               SetFloat ''pointSize'' (pointSize (material st))
                 \<in> set (newCalls st (bindForSubMesh lib scene world mesh st)))
          \<and> (diffuseTexture (material st) = Some t \<and> DiffuseTextureEnabled lib \<longrightarrow>
               SetTexture ''diffuseSampler'' t
                 \<in> set (newCalls st (bindForSubMesh lib scene world mesh st))
             \<and> SetFloat2 ''vDiffuseInfos'' (coordinatesIndex t) (level t)
                 \<in> set (newCalls st (bindForSubMesh lib scene world mesh st))
             \<and> SetMatrix ''diffuseMatrix'' (getTextureMatrix t)
                 \<in> set (newCalls st (bindForSubMesh lib scene world mesh st))))
     \<and> BindOnlyWorldMatrix world \<in> set (newCalls st (bindForSubMesh lib scene world mesh st))
     \<and> SetMatrix ''viewProjection'' (getTransformMatrix scene)
          \<in> set (newCalls st (bindForSubMesh lib scene world mesh st))
     \<and> BindBonesParameters mesh e \<in> set (newCalls st (bindForSubMesh lib scene world mesh st))
     \<and> SetColor4 ''vDiffuseColor'' (diffuseColor (material st))
            (alpha (material st) * visibility mesh)
          \<in> set (newCalls st (bindForSubMesh lib scene world mesh st))
     \<and> BindFogParameters scene mesh e \<in> set (newCalls st (bindForSubMesh lib scene world mesh st))
     \<and> (BindLights scene mesh e d (maxSimultaneousLights (material st))
          \<in> set (newCalls st (bindForSubMesh lib scene world mesh st)))
         = (lightsEnabled scene \<and> \<not> disableLighting (material st))"
  using assms
  by (simp add: bindForSubMesh_def Let_def isRebindScoped_def newCalls_def)

theorem bindForSubMesh_writes_witness:
  "materialDefines (subMesh sampleState) = Some sampleDefines
   \<and> effect (subMesh sampleState) = Some sampleEffect
   \<and> \<not> mustRebind sampleLibrary sampleScene sampleEffect
   \<and> filter isRebindScoped
        (newCalls sampleState (bindForSubMesh sampleLibrary sampleScene [] sampleMesh sampleState))
       = []
   \<and> BindOnlyWorldMatrix []
        \<in> set (newCalls sampleState
                 (bindForSubMesh sampleLibrary sampleScene [] sampleMesh sampleState))
   \<and> mustRebind (sampleLibrary\<lparr>mustRebind := \<lambda>scene e. True\<rparr>) sampleScene sampleEffect
   \<and> pointsCloud (material sampleState)
   \<and> diffuseTexture (material sampleState) = Some sampleTexture
   \<and> DiffuseTextureEnabled (sampleLibrary\<lparr>mustRebind := \<lambda>scene e. True\<rparr>)
   \<and> BindClipPlane sampleEffect sampleScene
        \<in> set (newCalls sampleState
                 (bindForSubMesh (sampleLibrary\<lparr>mustRebind := \<lambda>scene e. True\<rparr>)
                    sampleScene [] sampleMesh sampleState))
   \<and> SetFloat ''pointSize'' (pointSize (material sampleState))
        \<in> set (newCalls sampleState
                 (bindForSubMesh (sampleLibrary\<lparr>mustRebind := \<lambda>scene e. True\<rparr>)
                    sampleScene [] sampleMesh sampleState))
   \<and> SetTexture ''diffuseSampler'' sampleTexture
        \<in> set (newCalls sampleState
                 (bindForSubMesh (sampleLibrary\<lparr>mustRebind := \<lambda>scene e. True\<rparr>)
                    sampleScene [] sampleMesh sampleState))"
proof -
  let ?lib = "sampleLibrary\<lparr>mustRebind := \<lambda>scene e. True\<rparr>"
  have h1: "materialDefines (subMesh sampleState) = Some sampleDefines"
    and h2: "effect (subMesh sampleState) = Some sampleEffect"
    and h3: "\<not> mustRebind sampleLibrary sampleScene sampleEffect"
    and h4: "mustRebind ?lib sampleScene sampleEffect"
    and h5: "pointsCloud (material sampleState)"
    and h6: "diffuseTexture (material sampleState) = Some sampleTexture"
    and h7: "DiffuseTextureEnabled ?lib"
    by (simp_all add: sampleState_def sampleLibrary_def sampleMaterial_def)
  from bindForSubMesh_writes [OF h1 h2, where lib = sampleLibrary and scene = sampleScene
      and world = "[]" and mesh = sampleMesh] h3
  have A: "filter isRebindScoped
        (newCalls sampleState (bindForSubMesh sampleLibrary sampleScene [] sampleMesh sampleState))
       = []
     \<and> BindOnlyWorldMatrix []
        \<in> set (newCalls sampleState
                 (bindForSubMesh sampleLibrary sampleScene [] sampleMesh sampleState))"
    by blast
  from bindForSubMesh_writes [OF h1 h2, where lib = ?lib and scene = sampleScene
      and world = "[]" and mesh = sampleMesh and t = sampleTexture] h4 h5 h6 h7
  have B: "BindClipPlane sampleEffect sampleScene
        \<in> set (newCalls sampleState (bindForSubMesh ?lib sampleScene [] sampleMesh sampleState))
     \<and> SetFloat ''pointSize'' (pointSize (material sampleState))
        \<in> set (newCalls sampleState (bindForSubMesh ?lib sampleScene [] sampleMesh sampleState))
     \<and> SetTexture ''diffuseSampler'' sampleTexture
        \<in> set (newCalls sampleState (bindForSubMesh ?lib sampleScene [] sampleMesh sampleState))"
    by blast
  from h1 h2 h3 h4 h5 h6 h7 A B show ?thesis by blast
qed



text \<open>
  C8, as the code has it. The constructor calls whatever the hook's \<^verbatim>\<open>constructor\<close>
  property resolves to. A hook that is \<^verbatim>\<open>null\<close> or \<^verbatim>\<open>undefined\<close> makes construction
  fail with a TypeError, so \<^verbatim>\<open>Parse\<close>, which passes \<^verbatim>\<open>null\<close>, always fails. A hook
  object fails with a TypeError when its \<^verbatim>\<open>constructor\<close> resolves to something that
  cannot be run as a plain function; when it resolves to a function, that function runs on
  the new material and construction fails exactly when it throws. For a hook object
  without a \<^verbatim>\<open>constructor\<close> of its own the prototype decides: an instance of an
  ES2015 class and an object without prototype fail with a TypeError, an object literal
  is constructed.
\<close>

theorem CustomMaterial_constructor_hook:
  "(code = CodeNull \<or> code = CodeUndefined \<longrightarrow>
      CustomMaterial_constructor lib n scene code = Inl TypeError)
   \<and> Parse lib n scene = Inl TypeError
   \<and> (\<not> isCallable (getConstructorProperty own proto) \<longrightarrow>
        CustomMaterial_constructor lib n scene (CodeObject own proto) = Inl TypeError)
   \<and> (getConstructorProperty own proto = PFunction f \<longrightarrow>
        CustomMaterial_constructor lib n scene (CodeObject own proto)
          = (case f (initialFields lib n scene) of
               Inl err \<Rightarrow> Inl err
             | Inr this1 \<Rightarrow> Inr \<lparr> materialFields = this1,
                                 customCode = CodeObject own proto \<rparr>))
   \<and> (inherited = ClassPrototype \<or> inherited = NullPrototype \<longrightarrow>
        CustomMaterial_constructor lib n scene (CodeObject None inherited) = Inl TypeError)
   \<and> CustomMaterial_constructor lib n scene (CodeObject None ObjectPrototype)
       = Inr \<lparr> materialFields = initialFields lib n scene,
               customCode = CodeObject None ObjectPrototype \<rparr>"
  by (auto simp: CustomMaterial_constructor_def Parse_def callWithThis_def isCallable_def
        getConstructorProperty_def Object_function_def
      split: Property.splits)

theorem CustomMaterial_constructor_hook_witness:
  "CustomMaterial_constructor sampleLibrary ''custom'' sampleScene CodeNull = Inl TypeError
   \<and> Parse sampleLibrary ''custom'' sampleScene = Inl TypeError
   \<and> \<not> isCallable (getConstructorProperty (Some PUndefined) ObjectPrototype)
   \<and> CustomMaterial_constructor sampleLibrary ''custom'' sampleScene
        (CodeObject (Some PUndefined) ObjectPrototype) = Inl TypeError
   \<and> getConstructorProperty None (FunctionPrototype (\<lambda>this. Inl (Thrown ''bad hook'')))
        = PFunction (\<lambda>this. Inl (Thrown ''bad hook''))
   \<and> CustomMaterial_constructor sampleLibrary ''custom'' sampleScene
        (CodeObject None (FunctionPrototype (\<lambda>this. Inl (Thrown ''bad hook''))))
        = Inl (Thrown ''bad hook'')
   \<and> CustomMaterial_constructor sampleLibrary ''custom'' sampleScene
        (CodeObject None ClassPrototype) = Inl TypeError"
proof -
  have h1: "\<not> isCallable (getConstructorProperty (Some PUndefined) ObjectPrototype)"
    by (simp add: getConstructorProperty_def isCallable_def)
  have h2: "getConstructorProperty None (FunctionPrototype (\<lambda>this. Inl (Thrown ''bad hook'')))
        = PFunction (\<lambda>this. Inl (Thrown ''bad hook''))"
    by (simp add: getConstructorProperty_def)
  from CustomMaterial_constructor_hook [where code = CodeNull and lib = sampleLibrary
      and n = "''custom''" and scene = sampleScene and own = "Some PUndefined"
      and proto = ObjectPrototype and inherited = ClassPrototype] h1
  have A: "CustomMaterial_constructor sampleLibrary ''custom'' sampleScene CodeNull = Inl TypeError
     \<and> Parse sampleLibrary ''custom'' sampleScene = Inl TypeError
     \<and> CustomMaterial_constructor sampleLibrary ''custom'' sampleScene
        (CodeObject (Some PUndefined) ObjectPrototype) = Inl TypeError
     \<and> CustomMaterial_constructor sampleLibrary ''custom'' sampleScene
        (CodeObject None ClassPrototype) = Inl TypeError"
    by blast
  from CustomMaterial_constructor_hook [where lib = sampleLibrary
      and n = "''custom''" and scene = sampleScene and own = None
      and proto = "FunctionPrototype (\<lambda>this. Inl (Thrown ''bad hook''))"
      and f = "\<lambda>this. Inl (Thrown ''bad hook'')"] h2
  have B: "CustomMaterial_constructor sampleLibrary ''custom'' sampleScene
        (CodeObject None (FunctionPrototype (\<lambda>this. Inl (Thrown ''bad hook''))))
        = Inl (Thrown ''bad hook'')"
    by simp
  from h1 h2 A B show ?thesis by blast
qed

text \<open>
  C8 as stated fails: an object literal that has the other callbacks but no
  \<^verbatim>\<open>constructor\<close> inherits \<^verbatim>\<open>Object\<close> as its \<^verbatim>\<open>constructor\<close>; calling it
  does nothing, and construction succeeds.
\<close>

theorem CustomMaterial_constructor_hook_counterexample:
  "CustomMaterial_constructor sampleLibrary ''custom'' sampleScene
     (CodeObject None ObjectPrototype)
     = Inr \<lparr> materialFields = initialFields sampleLibrary ''custom'' sampleScene,
             customCode = CodeObject None ObjectPrototype \<rparr>"
  by (simp add: CustomMaterial_constructor_def getConstructorProperty_def callWithThis_def
      Object_function_def)

text \<open>
  C9. \<^verbatim>\<open>addVector\<close> adds the controller \<^verbatim>\<open>w\<close> exactly when its argument is a
  \<^verbatim>\<open>Color4\<close>: for every \<^verbatim>\<open>Vector4\<close> the controllers are \<^verbatim>\<open>x\<close>, \<^verbatim>\<open>y\<close> and
  \<^verbatim>\<open>z\<close>, and \<^verbatim>\<open>w\<close> is never added.
\<close>

theorem addVector_w_controller:
  "addsController ''w'' (addVector folderName v) = instanceof v ClassColor4
   \<and> \<not> addsController ''w'' (addVector folderName (Vector4 x y z w))
   \<and> addVector folderName (Vector4 x y z w) =
       [AddFolder folderName, FolderAdd ''x'' (1 / 100), FolderAdd ''y'' (1 / 100),
        FolderAdd ''z'' (1 / 100)]"
  by (simp add: addsController_def addVector_def instanceof_def)

text \<open>
  C10. A call of \<^verbatim>\<open>bindForSubMesh\<close> on a sub-mesh without defines or without an
  effect returns the state it was given: no library call is made and the material is not
  touched.
\<close>

theorem bindForSubMesh_no_op:
  assumes "materialDefines (subMesh st) = None \<or> effect (subMesh st) = None"
  shows "bindForSubMesh lib scene world mesh st = st
     \<and> newCalls st (bindForSubMesh lib scene world mesh st) = []
     \<and> material (bindForSubMesh lib scene world mesh st) = material st"
  using assms by (auto simp: bindForSubMesh_def newCalls_def split: option.splits)

theorem bindForSubMesh_no_op_witness:
  "materialDefines (subMesh unpreparedState) = None
   \<and> bindForSubMesh sampleLibrary sampleScene [] sampleMesh unpreparedState = unpreparedState
   \<and> calls (bindForSubMesh sampleLibrary sampleScene [] sampleMesh unpreparedState) = []
   \<and> effect (subMesh (sampleState\<lparr>subMesh := \<lparr>materialDefines = Some sampleDefines,
                                               effect = None\<rparr>\<rparr>)) = None
   \<and> bindForSubMesh sampleLibrary sampleScene [] sampleMesh
        (sampleState\<lparr>subMesh := \<lparr>materialDefines = Some sampleDefines, effect = None\<rparr>\<rparr>)
       = sampleState\<lparr>subMesh := \<lparr>materialDefines = Some sampleDefines, effect = None\<rparr>\<rparr>"
proof -
  let ?st = "sampleState\<lparr>subMesh := \<lparr>materialDefines = Some sampleDefines, effect = None\<rparr>\<rparr>"
  have h: "materialDefines (subMesh unpreparedState) = None"
    by (simp add: unpreparedState_def)
  then have h': "materialDefines (subMesh unpreparedState) = None
      \<or> effect (subMesh unpreparedState) = None" by simp
  have k: "effect (subMesh ?st) = None" by simp
  then have k': "materialDefines (subMesh ?st) = None \<or> effect (subMesh ?st) = None" by simp
  have c: "calls unpreparedState = []"
    by (simp add: unpreparedState_def sampleState_def)
  from bindForSubMesh_no_op [OF h', where lib = sampleLibrary and scene = sampleScene
      and world = "[]" and mesh = sampleMesh]
    bindForSubMesh_no_op [OF k', where lib = sampleLibrary and scene = sampleScene
      and world = "[]" and mesh = sampleMesh] h k c
  show ?thesis by simp
qed

end
